theory Spec2Isabelle
  imports Main "HOL-Library.Word"
begin

section \<open>The relation and permission model\<close>

text \<open>
  The authorization engine of \<^verbatim>\<open>internal/authz/engine.go\<close> is embedded here.
  The enumerations, the grants table and the relation ranking live in a file of the
  package that is not part of the sources at hand; they are modelled from the
  specification and marked as such. In the Go code the four enumerations are string
  types, so a resource type that is neither a document nor a category can reach the
  engine; it is kept as \<open>ResourceTypeOther\<close>.
\<close>

text \<open>Modelled from the spec: the type declaration of \<open>ResourceType\<close> (Document, Category,
  extensible).\<close>

datatype ResourceType = ResourceTypeDocument | ResourceTypeCategory | ResourceTypeOther string

text \<open>Modelled from the spec: the type declaration of \<open>SubjectType\<close> (User, Role, Tenant).\<close>

datatype SubjectType = SubjectTypeUser | SubjectTypeRole | SubjectTypeTenant

text \<open>Modelled from the spec: the type declaration of \<open>Relation\<close>
  (Unspecified, Viewer, Editor, Sharer, Owner); \<open>RelationUnspecified\<close> is the zero value.\<close>

datatype Relation =
  RelationUnspecified | RelationViewer | RelationEditor | RelationSharer | RelationOwner

text \<open>Modelled from the spec: the type declaration of \<open>Permission\<close>
  (Read, Write, Delete, Share, Download).\<close>

datatype Permission =
  PermissionRead | PermissionWrite | PermissionDelete | PermissionShare | PermissionDownload

text \<open>Modelled from the spec: the grants table \<open>RelationGrantsPermission\<close>, absent from
  the sources. Owner grants all five permissions; Editor grants Read, Write, Download;
  Viewer grants Read, Download; Sharer grants Read, Share, Download; Unspecified grants
  nothing.\<close>

fun RelationGrantsPermission :: "Relation \<Rightarrow> Permission \<Rightarrow> bool" where
  "RelationGrantsPermission RelationOwner p = True"
| "RelationGrantsPermission RelationEditor p =
     (p = PermissionRead \<or> p = PermissionWrite \<or> p = PermissionDownload)"
| "RelationGrantsPermission RelationViewer p =
     (p = PermissionRead \<or> p = PermissionDownload)"
| "RelationGrantsPermission RelationSharer p =
     (p = PermissionRead \<or> p = PermissionShare \<or> p = PermissionDownload)"
| "RelationGrantsPermission RelationUnspecified p = False"

text \<open>Modelled from the spec: the relation ranking behind \<open>IsRelationAtLeast\<close>, absent
  from the sources: Owner > Editor > Sharer > Viewer > Unspecified.\<close>

fun relationRank :: "Relation \<Rightarrow> nat" where
  "relationRank RelationOwner = 4"
| "relationRank RelationEditor = 3"
| "relationRank RelationSharer = 2"
| "relationRank RelationViewer = 1"
| "relationRank RelationUnspecified = 0"

text \<open>Modelled from the spec: \<open>IsRelationAtLeast r other\<close>, absent from the sources, says
  that \<open>r\<close> ranks at least as high as \<open>other\<close>.\<close>

definition IsRelationAtLeast :: "Relation \<Rightarrow> Relation \<Rightarrow> bool" where
  "IsRelationAtLeast r other = (relationRank other \<le> relationRank r)"

section \<open>Data of the engine\<close>

text \<open>A point in time is a number of clock ticks; \<open>Before\<close> is the strict order.
  A Go \<open>error\<close> value is represented by its message.\<close>

type_synonym time = int
type_synonym error = string

record PermissionTuple =
  ID :: "32 word"
  TenantID :: "32 word"
  ResourceType :: ResourceType
  ResourceID :: string
  Relation :: Relation
  SubjectType :: SubjectType
  SubjectID :: string
  GrantedBy :: "32 word option"
  ExpiresAt :: "time option"
  CreateTime :: time

text \<open>
  The two ports are Go interfaces. A port is modelled by the answers it gives in the
  store state a call runs in: a function from the arguments of the method to its result.
  A method returning \<open>(value, error)\<close> whose caller looks at the error first is a sum with
  the error on the left. \<open>GetUserRoleIDs\<close> keeps both components, because \<open>Check\<close> hands
  the returned slice on to the hierarchy walk also when the error is set.
  Only the methods the engine's read operations call are kept.
\<close>

record PermissionStore =
  HasPermission ::
    "32 word \<Rightarrow> ResourceType \<Rightarrow> string \<Rightarrow> SubjectType \<Rightarrow> string \<Rightarrow> error + PermissionTuple option"
  ListResourcesBySubject ::
    "32 word \<Rightarrow> SubjectType \<Rightarrow> string \<Rightarrow> ResourceType \<Rightarrow> error + string list"

record ResourceLookup =
  GetCategoryParentID :: "32 word \<Rightarrow> string \<Rightarrow> error + string option"
  GetDocumentCategoryID :: "32 word \<Rightarrow> string \<Rightarrow> error + string option"
  GetUserRoleIDs :: "32 word \<Rightarrow> string \<Rightarrow> string list \<times> error option"

text \<open>The engine holds its two ports (the logger has no effect on results).\<close>

record Engine =
  store :: PermissionStore
  lookup :: ResourceLookup

record CheckContext =
  TenantID :: "32 word"
  UserID :: string
  ResourceType :: ResourceType
  ResourceID :: string
  Permission :: Permission

record CheckResult =
  Allowed :: bool
  Relation :: "Relation option"
  Reason :: string

section \<open>Direct permission checks\<close>

text \<open>\<open>checkDirectPermission\<close>; \<open>now\<close> is the value \<open>time.Now()\<close> returns in the call.\<close>

definition checkDirectPermission ::
  "Engine \<Rightarrow> time \<Rightarrow> CheckContext \<Rightarrow> SubjectType \<Rightarrow> string \<Rightarrow> CheckResult" where
  "checkDirectPermission e now check subjectType subjectID =
     (case HasPermission (store e) (TenantID check) (ResourceType check) (ResourceID check)
             subjectType subjectID of
        Inl err \<Rightarrow> \<lparr>Allowed = False, Relation = None, Reason = ''error checking permission''\<rparr>
      | Inr None \<Rightarrow> \<lparr>Allowed = False, Relation = None, Reason = ''no direct permission''\<rparr>
      | Inr (Some tuple) \<Rightarrow>
          if (case ExpiresAt tuple of None \<Rightarrow> False | Some t \<Rightarrow> t < now)
          then \<lparr>Allowed = False, Relation = None, Reason = ''permission expired''\<rparr>
          else if RelationGrantsPermission (PermissionTuple.Relation tuple) (Permission check)
          then \<lparr>Allowed = True, Relation = Some (PermissionTuple.Relation tuple),
                Reason = ''direct permission''\<rparr>
          else \<lparr>Allowed = False, Relation = None,
                Reason = ''relation does not grant permission''\<rparr>)"

text \<open>The loop \<open>for _, roleID := range roleIDs\<close> that returns the first allowing result;
  \<open>None\<close> when the loop falls through.\<close>

fun checkRoles :: "Engine \<Rightarrow> time \<Rightarrow> CheckContext \<Rightarrow> string list \<Rightarrow> CheckResult option" where
  "checkRoles e now check [] = None"
| "checkRoles e now check (roleID # roleIDs) =
     (let result = checkDirectPermission e now check SubjectTypeRole roleID
      in if Allowed result then Some result else checkRoles e now check roleIDs)"

section \<open>The hierarchy walk\<close>

definition noInherited :: CheckResult where
  "noInherited = \<lparr>Allowed = False, Relation = None, Reason = ''no inherited permission''\<rparr>"

text \<open>
  The loop \<open>for parentCategoryID != nil\<close> of \<open>checkHierarchy\<close>. The ports are arbitrary
  functions, so the loop need not end; the result \<open>None\<close> stands for a walk that
  never returns.
\<close>

partial_function (option) hierarchyWalk ::
  "Engine \<Rightarrow> time \<Rightarrow> CheckContext \<Rightarrow> string list \<Rightarrow> string set \<Rightarrow> string option
     \<Rightarrow> CheckResult option" where
  "hierarchyWalk e now check roleIDs visited parentCategoryID =
     (case parentCategoryID of
        None \<Rightarrow> Some noInherited
      | Some categoryID \<Rightarrow>
          if categoryID \<in> visited then Some noInherited
          else
            let categoryCheck = \<lparr>TenantID = TenantID check, UserID = UserID check,
                                 ResourceType = ResourceTypeCategory, ResourceID = categoryID,
                                 Permission = Permission check\<rparr>;
                result = checkDirectPermission e now categoryCheck SubjectTypeUser (UserID check)
            in if Allowed result
               then Some (result\<lparr>Reason := ''inherited from parent category''\<rparr>)
               else
                 (case checkRoles e now categoryCheck roleIDs of
                    Some result \<Rightarrow>
                      Some (result\<lparr>Reason := ''inherited from parent category via role''\<rparr>)
                  | None \<Rightarrow>
                      let result = checkDirectPermission e now categoryCheck SubjectTypeTenant ''all''
                      in if Allowed result
                         then Some (result\<lparr>Reason := ''inherited from parent category via tenant''\<rparr>)
                         else
                           (case GetCategoryParentID (lookup e) (TenantID check) categoryID of
                              Inl err \<Rightarrow> Some noInherited
                            | Inr nextParent \<Rightarrow>
                                hierarchyWalk e now check roleIDs (insert categoryID visited)
                                  nextParent)))"

definition checkHierarchy ::
  "Engine \<Rightarrow> time \<Rightarrow> CheckContext \<Rightarrow> string list \<Rightarrow> CheckResult option" where
  "checkHierarchy e now check roleIDs =
     (case ResourceType check of
        ResourceTypeDocument \<Rightarrow>
          (case GetDocumentCategoryID (lookup e) (TenantID check) (ResourceID check) of
             Inl err \<Rightarrow> Some \<lparr>Allowed = False, Relation = None,
                               Reason = ''error getting document category''\<rparr>
           | Inr categoryID \<Rightarrow> hierarchyWalk e now check roleIDs {} categoryID)
      | ResourceTypeCategory \<Rightarrow>
          (case GetCategoryParentID (lookup e) (TenantID check) (ResourceID check) of
             Inl err \<Rightarrow> Some \<lparr>Allowed = False, Relation = None,
                               Reason = ''error getting category parent''\<rparr>
           | Inr parentID \<Rightarrow> hierarchyWalk e now check roleIDs {} parentID)
      | ResourceTypeOther other \<Rightarrow> hierarchyWalk e now check roleIDs {} None)"

section \<open>Check\<close>

definition noPermissionFound :: CheckResult where
  "noPermissionFound = \<lparr>Allowed = False, Relation = None, Reason = ''no permission found''\<rparr>"

text \<open>\<open>Engine.Check\<close>. The result is \<open>None\<close> exactly when the hierarchy walk never returns.
  One call reads the clock once per direct check; the readings are taken to be the one
  value \<open>now\<close>, and the ports answer from one state of the store throughout the call.\<close>

definition Check :: "Engine \<Rightarrow> time \<Rightarrow> CheckContext \<Rightarrow> CheckResult option" where
  "Check e now check =
     (let result = checkDirectPermission e now check SubjectTypeUser (UserID check)
      in if Allowed result then Some result
         else
           let (roleIDs, err) = GetUserRoleIDs (lookup e) (TenantID check) (UserID check)
           in (case (if err \<noteq> None then None else checkRoles e now check roleIDs) of
                 Some result \<Rightarrow> Some result
               | None \<Rightarrow>
                   let result = checkDirectPermission e now check SubjectTypeTenant ''all''
                   in if Allowed result then Some result
                      else
                        (case checkHierarchy e now check roleIDs of
                           None \<Rightarrow> None
                         | Some result \<Rightarrow>
                             if Allowed result then Some result else Some noPermissionFound)))"

section \<open>Listing and aggregation\<close>

text \<open>
  Both operations collect keys in a Go map of type \<open>map[K]bool\<close> and then copy the keys
  into a slice. The map is modelled by the list of its keys in the order of their first
  insertion; \<open>setKey\<close> is the assignment \<open>m[id] = true\<close>. Go iterates over a map in an
  unspecified order, so of the resulting slice only its elements and their multiplicity
  are meaningful, not their order.
\<close>

definition setKey :: "'a list \<Rightarrow> 'a \<Rightarrow> 'a list" where
  "setKey m k = (if k \<in> set m then m else m @ [k])"

text \<open>The loop \<open>for _, id := range ids { accessibleIDs[id] = true }\<close>.\<close>

definition setKeys :: "'a list \<Rightarrow> 'a list \<Rightarrow> 'a list" where
  "setKeys m ks = foldl setKey m ks"

text \<open>The body of the loop over the role ids in \<open>ListAccessibleResources\<close>: a listing
  that fails is skipped.\<close>

definition addRoleResources ::
  "Engine \<Rightarrow> 32 word \<Rightarrow> ResourceType \<Rightarrow> string list \<Rightarrow> string \<Rightarrow> string list" where
  "addRoleResources e tenantID resourceType accessibleIDs roleID =
     (case ListResourcesBySubject (store e) tenantID SubjectTypeRole roleID resourceType of
        Inl err \<Rightarrow> accessibleIDs
      | Inr roleResources \<Rightarrow> setKeys accessibleIDs roleResources)"

definition ListAccessibleResources ::
  "Engine \<Rightarrow> 32 word \<Rightarrow> string \<Rightarrow> ResourceType \<Rightarrow> Permission \<Rightarrow> error + string list" where
  "ListAccessibleResources e tenantID userID resourceType permission =
     (case ListResourcesBySubject (store e) tenantID SubjectTypeUser userID resourceType of
        Inl err \<Rightarrow> Inl err
      | Inr userResources \<Rightarrow>
          let accessibleIDs = setKeys [] userResources;
              (roleIDs, err) = GetUserRoleIDs (lookup e) tenantID userID;
              accessibleIDs =
                (if err \<noteq> None then accessibleIDs
                 else foldl (addRoleResources e tenantID resourceType) accessibleIDs roleIDs);
              accessibleIDs =
                (case ListResourcesBySubject (store e) tenantID SubjectTypeTenant ''all''
                        resourceType of
                   Inl err \<Rightarrow> accessibleIDs
                 | Inr tenantResources \<Rightarrow> setKeys accessibleIDs tenantResources)
          in Inr accessibleIDs)"

text \<open>The body of the loop of \<open>GetEffectivePermissions\<close>, after \<open>Check\<close> has returned
  \<open>result\<close> for the permission \<open>perm\<close>. The state is the key list of the map
  \<open>permissions\<close> and \<open>highestRelation\<close>.\<close>

definition effectiveStep ::
  "Permission list \<times> Relation \<Rightarrow> Permission \<Rightarrow> CheckResult \<Rightarrow> Permission list \<times> Relation" where
  "effectiveStep st perm result =
     (case st of (permissions, highestRelation) \<Rightarrow>
        if Allowed result
        then (setKey permissions perm,
              (case Relation result of
                 None \<Rightarrow> highestRelation
               | Some r \<Rightarrow> if IsRelationAtLeast r highestRelation then r else highestRelation))
        else (permissions, highestRelation))"

text \<open>The loop over the permissions; it returns nothing when one of the checks never
  returns.\<close>

fun effectiveLoop ::
  "Engine \<Rightarrow> time \<Rightarrow> CheckContext \<Rightarrow> Permission list \<times> Relation \<Rightarrow> Permission list
     \<Rightarrow> (Permission list \<times> Relation) option" where
  "effectiveLoop e now check st [] = Some st"
| "effectiveLoop e now check st (perm # perms) =
     (case Check e now (check\<lparr>Permission := perm\<rparr>) of
        None \<Rightarrow> None
      | Some result \<Rightarrow> effectiveLoop e now check (effectiveStep st perm result) perms)"

definition allPermissions :: "Permission list" where
  "allPermissions =
     [PermissionRead, PermissionWrite, PermissionDelete, PermissionShare, PermissionDownload]"

definition GetEffectivePermissions ::
  "Engine \<Rightarrow> time \<Rightarrow> CheckContext \<Rightarrow> (Permission list \<times> Relation) option" where
  "GetEffectivePermissions e now check =
     effectiveLoop e now check ([], RelationUnspecified) allPermissions"

text \<open>What the store lists for one subject; nothing when the listing fails.\<close>

definition listedIDs ::
  "Engine \<Rightarrow> 32 word \<Rightarrow> SubjectType \<Rightarrow> string \<Rightarrow> ResourceType \<Rightarrow> string set" where
  "listedIDs e tenantID subjectType subjectID resourceType =
     (case ListResourcesBySubject (store e) tenantID subjectType subjectID resourceType of
        Inl err \<Rightarrow> {}
      | Inr ids \<Rightarrow> set ids)"

section \<open>The evaluation order in the words of the specification\<close>

text \<open>
  The specification describes \<open>Check\<close> as a search: the candidate grants are the direct
  tuple of the user, then one direct tuple per role id in the order the role lookup
  returned them (none when the lookup failed), then the tenant wildcard tuple, then
  hierarchy inheritance; the first allowing result is returned, and when nothing allows
  the result is the denial "no permission found". This definition follows those words;
  it is compared with \<open>Check\<close> below.
\<close>

definition CheckAsSpecified :: "Engine \<Rightarrow> time \<Rightarrow> CheckContext \<Rightarrow> CheckResult option" where
  "CheckAsSpecified e now check =
     (let (roleIDs, err) = GetUserRoleIDs (lookup e) (TenantID check) (UserID check);
          returned = (if err = None then roleIDs else []);
          candidates =
            checkDirectPermission e now check SubjectTypeUser (UserID check)
            # map (checkDirectPermission e now check SubjectTypeRole) returned
            @ [checkDirectPermission e now check SubjectTypeTenant ''all'']
      in case find Allowed candidates of
           Some result \<Rightarrow> Some result
         | None \<Rightarrow>
             (case checkHierarchy e now check roleIDs of
                None \<Rightarrow> None
              | Some result \<Rightarrow> if Allowed result then Some result else Some noPermissionFound))"

section \<open>Scenarios\<close>

text \<open>
  Concrete ports for the scenarios of the specification: a store that answers from a
  finite table of tuples, a lookup that answers from finite tables, and ports whose every
  call fails, as under a cancelled context. They are inputs of the engine, not part of it.
\<close>

definition grantTuple ::
  "ResourceType \<Rightarrow> string \<Rightarrow> Relation \<Rightarrow> SubjectType \<Rightarrow> string \<Rightarrow> time option \<Rightarrow> PermissionTuple" where
  "grantTuple resourceType resourceID relation subjectType subjectID expiresAt =
     \<lparr>ID = 1, TenantID = 1, ResourceType = resourceType, ResourceID = resourceID,
      Relation = relation, SubjectType = subjectType, SubjectID = subjectID,
      GrantedBy = None, ExpiresAt = expiresAt, CreateTime = 0\<rparr>"

definition tupleMatches ::
  "32 word \<Rightarrow> ResourceType \<Rightarrow> string \<Rightarrow> SubjectType \<Rightarrow> string \<Rightarrow> PermissionTuple \<Rightarrow> bool" where
  "tupleMatches tenantID resourceType resourceID subjectType subjectID t =
     (PermissionTuple.TenantID t = tenantID \<and> PermissionTuple.ResourceType t = resourceType
      \<and> PermissionTuple.ResourceID t = resourceID \<and> SubjectType t = subjectType
      \<and> SubjectID t = subjectID)"

definition tableStore :: "PermissionTuple list \<Rightarrow> PermissionStore" where
  "tableStore ts =
     \<lparr>HasPermission = (\<lambda>tenantID resourceType resourceID subjectType subjectID.
        Inr (find (tupleMatches tenantID resourceType resourceID subjectType subjectID) ts)),
      ListResourcesBySubject = (\<lambda>tenantID subjectType subjectID resourceType.
        Inr (map PermissionTuple.ResourceID
               (filter (\<lambda>t. PermissionTuple.TenantID t = tenantID
                          \<and> SubjectType t = subjectType \<and> SubjectID t = subjectID
                          \<and> PermissionTuple.ResourceType t = resourceType) ts)))\<rparr>"

definition tableLookup ::
  "(string \<times> string) list \<Rightarrow> (string \<times> string) list \<Rightarrow> (string \<times> string list) list
     \<Rightarrow> ResourceLookup" where
  "tableLookup parents categories roles =
     \<lparr>GetCategoryParentID = (\<lambda>tenantID categoryID. Inr (map_of parents categoryID)),
      GetDocumentCategoryID = (\<lambda>tenantID documentID. Inr (map_of categories documentID)),
      GetUserRoleIDs = (\<lambda>tenantID userID.
        (case map_of roles userID of None \<Rightarrow> [] | Some rs \<Rightarrow> rs, None))\<rparr>"

definition failingStore :: PermissionStore where
  "failingStore =
     \<lparr>HasPermission = (\<lambda>tenantID resourceType resourceID subjectType subjectID.
        Inl ''context canceled''),
      ListResourcesBySubject = (\<lambda>tenantID subjectType subjectID resourceType.
        Inl ''context canceled'')\<rparr>"

definition failingLookup :: ResourceLookup where
  "failingLookup =
     \<lparr>GetCategoryParentID = (\<lambda>tenantID categoryID. Inl ''context canceled''),
      GetDocumentCategoryID = (\<lambda>tenantID documentID. Inl ''context canceled''),
      GetUserRoleIDs = (\<lambda>tenantID userID. ([], Some ''context canceled''))\<rparr>"

definition readDocument :: "string \<Rightarrow> string \<Rightarrow> CheckContext" where
  "readDocument userID documentID =
     \<lparr>TenantID = 1, UserID = userID, ResourceType = ResourceTypeDocument,
      ResourceID = documentID, Permission = PermissionRead\<rparr>"

text \<open>User U holds an Owner tuple on document D that expired at time 5.\<close>

definition expiredOwnerEngine :: Engine where
  "expiredOwnerEngine =
     \<lparr>store = tableStore
        [grantTuple ResourceTypeDocument ''D'' RelationOwner SubjectTypeUser ''U'' (Some 5)],
      lookup = tableLookup [] [(''D'', ''C2'')] []\<rparr>"

text \<open>User U has the roles R1 and R2, in this order; on document D the user's own tuple
  has expired, R1 is a viewer, R2 an owner and the tenant wildcard an editor.\<close>

definition twoRolesEngine :: Engine where
  "twoRolesEngine =
     \<lparr>store = tableStore
        [grantTuple ResourceTypeDocument ''D'' RelationOwner SubjectTypeUser ''U'' (Some 5),
         grantTuple ResourceTypeDocument ''D'' RelationOwner SubjectTypeRole ''R2'' None,
         grantTuple ResourceTypeDocument ''D'' RelationViewer SubjectTypeRole ''R1'' None,
         grantTuple ResourceTypeDocument ''D'' RelationEditor SubjectTypeTenant ''all'' None],
      lookup = tableLookup [] [] [(''U'', [''R1'', ''R2''])]\<rparr>"

text \<open>Further scenario inputs: a store whose calls fail for one subject type, a cyclic
  hierarchy with \<open>parent(C1) = C2\<close> and \<open>parent(C2) = C1\<close> and no tuple, and an engine whose
  every port call fails.\<close>

definition failingFor :: "SubjectType \<Rightarrow> PermissionStore \<Rightarrow> PermissionStore" where
  "failingFor failing s =
     \<lparr>HasPermission = (\<lambda>tenantID resourceType resourceID subjectType subjectID.
        if subjectType = failing then Inl ''store unavailable''
        else HasPermission s tenantID resourceType resourceID subjectType subjectID),
      ListResourcesBySubject = (\<lambda>tenantID subjectType subjectID resourceType.
        if subjectType = failing then Inl ''store unavailable''
        else ListResourcesBySubject s tenantID subjectType subjectID resourceType)\<rparr>"

definition cyclicEngine :: Engine where
  "cyclicEngine =
     \<lparr>store = tableStore [],
      lookup = tableLookup [(''C1'', ''C2''), (''C2'', ''C1'')] [] []\<rparr>"

definition readCategory :: "string \<Rightarrow> string \<Rightarrow> CheckContext" where
  "readCategory userID categoryID =
     \<lparr>TenantID = 1, UserID = userID, ResourceType = ResourceTypeCategory,
      ResourceID = categoryID, Permission = PermissionRead\<rparr>"

definition userErrorEngine :: "PermissionTuple list \<Rightarrow> Engine" where
  "userErrorEngine ts =
     \<lparr>store = failingFor SubjectTypeUser (tableStore ts),
      lookup = tableLookup [] [] [(''U'', [''R1''])]\<rparr>"

definition failingEngine :: Engine where
  "failingEngine = \<lparr>store = failingStore, lookup = failingLookup\<rparr>"

definition roleViewerTuples :: "PermissionTuple list" where
  "roleViewerTuples =
     [grantTuple ResourceTypeDocument ''D'' RelationOwner SubjectTypeUser ''U'' None,
      grantTuple ResourceTypeDocument ''D'' RelationViewer SubjectTypeRole ''R1'' None]"

definition tenantEditorTuples :: "PermissionTuple list" where
  "tenantEditorTuples =
     [grantTuple ResourceTypeDocument ''D'' RelationOwner SubjectTypeUser ''U'' None,
      grantTuple ResourceTypeDocument ''D'' RelationEditor SubjectTypeTenant ''all'' None]"

text \<open>The inheritance scenario: one Owner tuple on category C1, held by the given subject;
  category C2 has parent C1, document D belongs to C2; user U has the roles R1 and R2.\<close>

definition inheritanceEngine :: "SubjectType \<Rightarrow> string \<Rightarrow> Engine" where
  "inheritanceEngine subjectType subjectID =
     \<lparr>store = tableStore
        [grantTuple ResourceTypeCategory ''C1'' RelationOwner subjectType subjectID None],
      lookup = tableLookup [(''C2'', ''C1'')] [(''D'', ''C2'')] [(''U'', [''R1'', ''R2''])]\<rparr>"

text \<open>User U is an editor of document X.\<close>

definition editorEngine :: Engine where
  "editorEngine =
     \<lparr>store = tableStore
        [grantTuple ResourceTypeDocument ''X'' RelationEditor SubjectTypeUser ''U'' None],
      lookup = tableLookup [] [] []\<rparr>"

text \<open>The listing scenario: R1 is granted to user U directly, R2 to the role R that U
  holds and also to U directly, R3 to the tenant wildcard with a relation that grants
  nothing; a category tuple of U is not a document.\<close>

definition listingEngine :: Engine where
  "listingEngine =
     \<lparr>store = tableStore
        [grantTuple ResourceTypeDocument ''R1'' RelationViewer SubjectTypeUser ''U'' None,
         grantTuple ResourceTypeDocument ''R2'' RelationEditor SubjectTypeRole ''R'' None,
         grantTuple ResourceTypeDocument ''R3'' RelationUnspecified SubjectTypeTenant ''all'' None,
         grantTuple ResourceTypeDocument ''R2'' RelationViewer SubjectTypeUser ''U'' None,
         grantTuple ResourceTypeCategory ''C1'' RelationOwner SubjectTypeUser ''U'' None],
      lookup = tableLookup [] [] [(''U'', [''R''])]\<rparr>"

section \<open>Auxiliary facts\<close>

lemmas scenario_defs = tableStore_def tableLookup_def grantTuple_def tupleMatches_def
  readDocument_def failingStore_def failingLookup_def

lemmas engine_defs = Check_def checkHierarchy_def checkDirectPermission_def
  noInherited_def noPermissionFound_def Let_def

lemma checkDirectPermission_allowed:
  assumes "Allowed (checkDirectPermission e now check subjectType subjectID)"
  shows "\<exists>rel. checkDirectPermission e now check subjectType subjectID =
           \<lparr>Allowed = True, Relation = Some rel, Reason = ''direct permission''\<rparr>
         \<and> RelationGrantsPermission rel (Permission check)"
  using assms
  by (auto simp: checkDirectPermission_def split: sum.splits option.splits if_splits)

lemma checkRoles_Some:
  "checkRoles e now check roleIDs = Some r \<Longrightarrow>
     Allowed r \<and> (\<exists>roleID \<in> set roleIDs. r = checkDirectPermission e now check SubjectTypeRole roleID)"
  by (induction roleIDs) (auto simp: Let_def split: if_splits)

lemma checkRoles_None:
  "checkRoles e now check roleIDs = None \<longleftrightarrow>
     (\<forall>roleID \<in> set roleIDs. \<not> Allowed (checkDirectPermission e now check SubjectTypeRole roleID))"
  by (induction roleIDs) (auto simp: Let_def)

lemma checkRoles_find:
  "checkRoles e now check roleIDs =
     find Allowed (map (checkDirectPermission e now check SubjectTypeRole) roleIDs)"
  by (induction roleIDs) (auto simp: Let_def)

lemma find_append_cases:
  "find P (xs @ ys) = (case find P xs of None \<Rightarrow> find P ys | Some x \<Rightarrow> Some x)"
  by (induction xs) auto

text \<open>Every allowing result of the walk carries a relation that grants the permission.\<close>

lemma hierarchyWalk_allowed:
  assumes "hierarchyWalk e now check roleIDs visited cur = Some r"
  shows "Allowed r \<longrightarrow>
    (\<exists>rel. Relation r = Some rel \<and> RelationGrantsPermission rel (Permission check))"
  using assms
proof (induct rule: hierarchyWalk.raw_induct[rotated 1, consumes 1, case_names step])
  case (step walk e now check roleIDs visited cur r)
  show ?case
  proof (cases cur)
    case None
    with step(2) show ?thesis by (auto simp: noInherited_def)
  next
    case (Some c)
    show ?thesis
      using step(2) Some step(1)
      by (auto simp: Let_def noInherited_def split: if_splits option.splits sum.splits
          dest!: checkDirectPermission_allowed checkRoles_Some)
  qed
qed

lemma checkHierarchy_allowed:
  assumes "checkHierarchy e now check roleIDs = Some r" and "Allowed r"
  shows "\<exists>rel. Relation r = Some rel \<and> RelationGrantsPermission rel (Permission check)"
  using assms hierarchyWalk_allowed[of e now check roleIDs "{}" _ r]
  by (auto simp: checkHierarchy_def split: ResourceType.splits sum.splits)

subsection \<open>The walk returns on a finite hierarchy\<close>

lemmas scenario_defs2 = scenario_defs failingFor_def cyclicEngine_def readCategory_def
  userErrorEngine_def failingEngine_def

lemma hierarchyWalk_returns:
  assumes fin: "finite A"
    and closed: "\<And>c p. GetCategoryParentID (lookup e) (TenantID check) c = Inr (Some p) \<Longrightarrow> p \<in> A"
  shows "(\<forall>c. cur = Some c \<longrightarrow> c \<in> A) \<Longrightarrow>
         \<exists>r. hierarchyWalk e now check roleIDs visited cur = Some r"
proof (induction "card (A - visited)" arbitrary: visited cur rule: less_induct)
  case less
  show ?case
  proof (cases cur)
    case None
    then show ?thesis by (simp add: hierarchyWalk.simps)
  next
    case (Some c)
    show ?thesis
    proof (cases "c \<in> visited")
      case True
      with Some show ?thesis by (simp add: hierarchyWalk.simps)
    next
      case False
      from less.prems Some have cA: "c \<in> A" by simp
      have "A - insert c visited \<subset> A - visited" using cA False by auto
      then have smaller: "card (A - insert c visited) < card (A - visited)"
        using fin by (intro psubset_card_mono) auto
      have step: "\<exists>r. hierarchyWalk e now check roleIDs (insert c visited) nxt = Some r"
        if "GetCategoryParentID (lookup e) (TenantID check) c = Inr nxt" for nxt
        using less.hyps[OF smaller, of nxt] closed[of c] that by auto
      show ?thesis
        using Some False step
        by (subst hierarchyWalk.simps)
          (auto simp: Let_def split: option.splits sum.splits)
    qed
  qed
qed

lemma checkHierarchy_returns:
  assumes "finite {p. \<exists>c. GetCategoryParentID (lookup e) (TenantID check) c = Inr (Some p)}"
  shows "\<exists>r. checkHierarchy e now check roleIDs = Some r"
proof -
  let ?P = "{p. \<exists>c. GetCategoryParentID (lookup e) (TenantID check) c = Inr (Some p)}"
  have walk: "\<exists>r. hierarchyWalk e now check roleIDs {} cur = Some r" for cur
  proof -
    let ?A = "?P \<union> set_option cur"
    have "finite ?A" using assms by simp
    moreover have "\<And>c p. GetCategoryParentID (lookup e) (TenantID check) c = Inr (Some p) \<Longrightarrow> p \<in> ?A"
      by auto
    moreover have "\<forall>c. cur = Some c \<longrightarrow> c \<in> ?A" by auto
    ultimately show ?thesis by (rule hierarchyWalk_returns)
  qed
  show ?thesis
    using walk by (auto simp: checkHierarchy_def split: ResourceType.splits sum.splits)
qed

lemma Check_returns:
  assumes "finite {p. \<exists>c. GetCategoryParentID (lookup e) (TenantID check) c = Inr (Some p)}"
  shows "\<exists>r. Check e now check = Some r"
proof -
  obtain roleIDs err where g: "GetUserRoleIDs (lookup e) (TenantID check) (UserID check) = (roleIDs, err)"
    by (cases "GetUserRoleIDs (lookup e) (TenantID check) (UserID check)")
  obtain h where "checkHierarchy e now check roleIDs = Some h"
    using checkHierarchy_returns[OF assms] by blast
  then show ?thesis
    using g by (auto simp: Check_def Let_def split: option.splits)
qed

lemma hierarchyWalk_stops_at_visited:
  "categoryID \<in> visited \<Longrightarrow>
     hierarchyWalk e now check roleIDs visited (Some categoryID) = Some noInherited"
  by (simp add: hierarchyWalk.simps)

lemma no_tuple_denies:
  assumes "\<And>rt rid st sid. HasPermission (store e) t rt rid st sid = Inr None"
    and "TenantID c = t"
  shows "\<not> Allowed (checkDirectPermission e now c st sid)"
  using assms by (simp add: checkDirectPermission_def)

lemma checkRoles_no_tuple:
  assumes "\<And>rt rid st sid. HasPermission (store e) t rt rid st sid = Inr None"
    and "TenantID c = t"
  shows "checkRoles e now c roleIDs = None"
  using no_tuple_denies[OF assms] by (induction roleIDs) (simp_all add: Let_def)

lemma hierarchyWalk_no_tuple:
  assumes nt: "\<And>rt rid st sid. HasPermission (store e) (TenantID check) rt rid st sid = Inr None"
  shows "hierarchyWalk e now check roleIDs visited (Some c) =
     (if c \<in> visited then Some noInherited
      else case GetCategoryParentID (lookup e) (TenantID check) c of
             Inl err \<Rightarrow> Some noInherited
           | Inr nextParent \<Rightarrow> hierarchyWalk e now check roleIDs (insert c visited) nextParent)"
  by (subst hierarchyWalk.simps)
    (simp add: Let_def no_tuple_denies[OF nt] checkRoles_no_tuple[OF nt])

lemma cyclic_denied:
  assumes "ResourceType check = ResourceTypeCategory" and "ResourceID check = c1"
    and "GetCategoryParentID (lookup e) (TenantID check) c1 = Inr (Some c2)"
    and "GetCategoryParentID (lookup e) (TenantID check) c2 = Inr (Some c1)"
    and nt: "\<And>rt rid st sid. HasPermission (store e) (TenantID check) rt rid st sid = Inr None"
  shows "Check e now check = Some noPermissionFound"
proof -
  have "checkHierarchy e now check roleIDs = Some noInherited" for roleIDs
    using assms(1-4) by (simp add: checkHierarchy_def hierarchyWalk_no_tuple[OF nt])
  then show ?thesis
    by (simp add: Check_def Let_def no_tuple_denies[OF nt] checkRoles_no_tuple[OF nt]
        noInherited_def split: prod.splits)
qed

lemma tableLookup_finite:
  "finite {p. \<exists>c. GetCategoryParentID (tableLookup parents categories roles) t c = Inr (Some p)}"
proof (rule finite_subset)
  show "{p. \<exists>c. GetCategoryParentID (tableLookup parents categories roles) t c = Inr (Some p)}
          \<subseteq> snd ` set parents"
    by (auto simp: tableLookup_def dest!: map_of_SomeD intro: rev_image_eqI)
qed simp

subsection \<open>The walk depends on the store and on the parent lookup only\<close>

lemma checkDirectPermission_store_cong:
  "store (e'::Engine) = store (e::Engine) \<Longrightarrow>
     checkDirectPermission e' now check st sid = checkDirectPermission e now check st sid"
  by (simp add: checkDirectPermission_def)

lemma checkRoles_store_cong:
  "store (e'::Engine) = store (e::Engine) \<Longrightarrow> checkRoles e' now check roleIDs = checkRoles e now check roleIDs"
  by (induction roleIDs) (simp_all add: checkDirectPermission_store_cong[of e' e] Let_def)

lemma hierarchyWalk_cong_Some:
  assumes "hierarchyWalk e now check roleIDs visited cur = Some r"
  shows "\<forall>e'::Engine. store e' = store e
           \<and> GetCategoryParentID (lookup e') = GetCategoryParentID (lookup e) \<longrightarrow>
         hierarchyWalk e' now check roleIDs visited cur = Some r"
  using assms
proof (induct rule: hierarchyWalk.raw_induct[rotated 1, consumes 1, case_names step])
  case (step walk e now check roleIDs visited cur r)
  show ?case
  proof (intro allI impI)
    fix e' :: Engine
    assume eq: "store e' = store e
           \<and> GetCategoryParentID (lookup e') = GetCategoryParentID (lookup e)"
    then have st: "store e' = store e" by simp
    have d: "checkDirectPermission e' now c st sid = checkDirectPermission e now c st sid"
      for c st sid
      using st by (rule checkDirectPermission_store_cong)
    have rl: "checkRoles e' now c rs = checkRoles e now c rs" for c rs
      using st by (rule checkRoles_store_cong)
    show "hierarchyWalk e' now check roleIDs visited cur = Some r"
    proof (cases cur)
      case None
      with step(2) show ?thesis by (simp add: hierarchyWalk.simps)
    next
      case (Some c)
      have IH: "hierarchyWalk e' now check roleIDs vis nxt = Some y"
        if "walk e now check roleIDs vis nxt = Some y" for vis nxt y
        using step(1)[OF that] eq by blast
      have parent: "GetCategoryParentID (lookup e') (TenantID check) c =
                    GetCategoryParentID (lookup e) (TenantID check) c"
        using eq by simp
      show ?thesis
        using step(2) Some
        by (subst hierarchyWalk.simps)
          (auto simp: Let_def d rl parent IH split: if_splits option.splits sum.splits)
    qed
  qed
qed

lemma hierarchyWalk_cong:
  assumes "store (e'::Engine) = store e"
    and "GetCategoryParentID (lookup e') = GetCategoryParentID (lookup e)"
  shows "hierarchyWalk e' now check roleIDs visited cur =
         hierarchyWalk e now check roleIDs visited cur"
proof (cases "hierarchyWalk e now check roleIDs visited cur")
  case (Some r)
  then show ?thesis using hierarchyWalk_cong_Some[OF Some] assms by simp
next
  case None
  show ?thesis
  proof (cases "hierarchyWalk e' now check roleIDs visited cur")
    case (Some r)
    then show ?thesis using hierarchyWalk_cong_Some[OF Some] assms by simp
  qed (simp add: None)
qed

lemma checkHierarchy_ignores_role_lookup:
  "checkHierarchy (e\<lparr>lookup := (lookup e)\<lparr>GetUserRoleIDs := g\<rparr>\<rparr>) now check roleIDs =
     checkHierarchy e now check roleIDs"
proof -
  let ?e' = "e\<lparr>lookup := (lookup e)\<lparr>GetUserRoleIDs := g\<rparr>\<rparr>"
  have "hierarchyWalk ?e' now check roleIDs {} cur = hierarchyWalk e now check roleIDs {} cur"
    for cur
    by (rule hierarchyWalk_cong) simp_all
  then show ?thesis
    by (simp add: checkHierarchy_def split: ResourceType.splits sum.splits)
qed

lemma checkDirectPermission_no_tuple:
  "HasPermission (store e) (TenantID check) (ResourceType check) (ResourceID check) st sid = Inr None
   \<Longrightarrow> checkDirectPermission e now check st sid =
       \<lparr>Allowed = False, Relation = None, Reason = ''no direct permission''\<rparr>"
  by (simp add: checkDirectPermission_def)

lemma checkDirectPermission_live_tuple:
  assumes "HasPermission (store e) (TenantID check) (ResourceType check) (ResourceID check) st sid
             = Inr (Some tuple)"
    and "\<forall>t. ExpiresAt tuple = Some t \<longrightarrow> \<not> t < now"
    and "RelationGrantsPermission (PermissionTuple.Relation tuple) (Permission check)"
  shows "checkDirectPermission e now check st sid =
       \<lparr>Allowed = True, Relation = Some (PermissionTuple.Relation tuple),
        Reason = ''direct permission''\<rparr>"
  using assms by (simp add: checkDirectPermission_def split: option.splits)

lemma checkRoles_all_denied:
  "(\<And>roleID. \<not> Allowed (checkDirectPermission e now check SubjectTypeRole roleID))
     \<Longrightarrow> checkRoles e now check roleIDs = None"
  by (induction roleIDs) (simp_all add: Let_def)

lemma checkRoles_single_holder:
  assumes "sid \<in> set roleIDs"
    and "Allowed (checkDirectPermission e now check SubjectTypeRole sid)"
    and "\<And>roleID. roleID \<noteq> sid \<Longrightarrow> \<not> Allowed (checkDirectPermission e now check SubjectTypeRole roleID)"
  shows "checkRoles e now check roleIDs = Some (checkDirectPermission e now check SubjectTypeRole sid)"
  using assms(1)
proof (induction roleIDs)
  case Nil
  then show ?case by simp
next
  case (Cons a roleIDs)
  show ?case
  proof (cases "a = sid")
    case True
    then show ?thesis using assms(2) by (simp add: Let_def)
  next
    case False
    then show ?thesis using Cons assms(3)[of a] by (simp add: Let_def)
  qed
qed

lemma hierarchyWalk_level_none:
  assumes "\<And>st sid. HasPermission (store e) (TenantID check) ResourceTypeCategory c st sid = Inr None"
    and "c \<notin> visited"
  shows "hierarchyWalk e now check roleIDs visited (Some c) =
     (case GetCategoryParentID (lookup e) (TenantID check) c of
        Inl err \<Rightarrow> Some noInherited
      | Inr nextParent \<Rightarrow> hierarchyWalk e now check roleIDs (insert c visited) nextParent)"
proof -
  let ?cc = "\<lparr>TenantID = TenantID check, UserID = UserID check,
              ResourceType = ResourceTypeCategory, ResourceID = c,
              Permission = Permission check\<rparr>"
  have d: "\<not> Allowed (checkDirectPermission e now ?cc st sid)" for st sid
    using assms(1) by (simp add: checkDirectPermission_def)
  have r: "checkRoles e now ?cc roleIDs = None"
    by (rule checkRoles_all_denied) (rule d)
  show ?thesis
    using assms(2) by (subst hierarchyWalk.simps) (simp add: Let_def d r)
qed

lemma hierarchyWalk_level_match:
  assumes holder: "(st = SubjectTypeUser \<and> sid = UserID check)
       \<or> (st = SubjectTypeRole \<and> sid \<in> set roleIDs)
       \<or> (st = SubjectTypeTenant \<and> sid = ''all'')"
    and tuple: "HasPermission (store e) (TenantID check) ResourceTypeCategory c st sid
                  = Inr (Some tuple)"
    and live: "\<forall>t. ExpiresAt tuple = Some t \<longrightarrow> \<not> t < now"
    and grants: "RelationGrantsPermission (PermissionTuple.Relation tuple) (Permission check)"
    and others: "\<And>st' sid'. (st', sid') \<noteq> (st, sid) \<Longrightarrow>
                  HasPermission (store e) (TenantID check) ResourceTypeCategory c st' sid' = Inr None"
    and fresh: "c \<notin> visited"
  shows "hierarchyWalk e now check roleIDs visited (Some c) =
     Some \<lparr>Allowed = True, Relation = Some (PermissionTuple.Relation tuple),
           Reason = (case st of
                       SubjectTypeUser \<Rightarrow> ''inherited from parent category''
                     | SubjectTypeRole \<Rightarrow> ''inherited from parent category via role''
                     | SubjectTypeTenant \<Rightarrow> ''inherited from parent category via tenant'')\<rparr>"
proof -
  let ?cc = "\<lparr>TenantID = TenantID check, UserID = UserID check,
              ResourceType = ResourceTypeCategory, ResourceID = c,
              Permission = Permission check\<rparr>"
  let ?ok = "\<lparr>Allowed = True, Relation = Some (PermissionTuple.Relation tuple),
              Reason = ''direct permission''\<rparr>"
  have hit: "checkDirectPermission e now ?cc st sid = ?ok"
    using tuple live grants by (intro checkDirectPermission_live_tuple) simp_all
  have miss: "\<not> Allowed (checkDirectPermission e now ?cc st' sid')"
    if "(st', sid') \<noteq> (st, sid)" for st' sid'
    using others[OF that] by (simp add: checkDirectPermission_def)
  consider (user) "st = SubjectTypeUser" "sid = UserID check"
    | (role) "st = SubjectTypeRole" "sid \<in> set roleIDs"
    | (tenant) "st = SubjectTypeTenant" "sid = ''all''"
    using holder by blast
  then show ?thesis
  proof cases
    case user
    then show ?thesis
      using fresh hit by (subst hierarchyWalk.simps) (simp add: Let_def)
  next
    case role
    have u: "\<not> Allowed (checkDirectPermission e now ?cc SubjectTypeUser (UserID check))"
      using role by (intro miss) simp
    have "checkRoles e now ?cc roleIDs = Some (checkDirectPermission e now ?cc SubjectTypeRole sid)"
    proof (rule checkRoles_single_holder)
      show "sid \<in> set roleIDs" by (rule role(2))
      show "Allowed (checkDirectPermission e now ?cc SubjectTypeRole sid)"
        using hit role(1) by simp
      show "\<not> Allowed (checkDirectPermission e now ?cc SubjectTypeRole roleID)"
        if "roleID \<noteq> sid" for roleID
        using that by (intro miss) simp
    qed
    then have r: "checkRoles e now ?cc roleIDs = Some ?ok" using hit role(1) by simp
    show ?thesis
      using fresh u r role(1) by (subst hierarchyWalk.simps) (simp add: Let_def)
  next
    case tenant
    have u: "\<not> Allowed (checkDirectPermission e now ?cc SubjectTypeUser (UserID check))"
      using tenant by (intro miss) simp
    have r: "checkRoles e now ?cc roleIDs = None"
      using tenant by (intro checkRoles_all_denied miss) simp
    have t: "checkDirectPermission e now ?cc SubjectTypeTenant ''all'' = ?ok"
      using hit tenant by simp
    show ?thesis
      using fresh u r t tenant(1) by (subst hierarchyWalk.simps) (simp add: Let_def)
  qed
qed

subsection \<open>Key lists and the aggregation loops\<close>

lemma set_setKey: "set (setKey m k) = insert k (set m)"
  by (auto simp: setKey_def)

lemma distinct_setKey: "distinct m \<Longrightarrow> distinct (setKey m k)"
  by (simp add: setKey_def)

lemma effectiveLoop_foldl:
  assumes "\<And>p. Check e now (check\<lparr>Permission := p\<rparr>) = Some (res p)"
  shows "effectiveLoop e now check st perms =
           Some (foldl (\<lambda>st p. effectiveStep st p (res p)) st perms)"
  by (induction perms arbitrary: st) (simp_all add: assms)

lemma effectiveStep_fst:
  "fst (effectiveStep st p r) = (if Allowed r then setKey (fst st) p else fst st)"
  by (cases st) (simp add: effectiveStep_def)

lemma effectiveStep_snd:
  "snd (effectiveStep st p r) =
     (case (Allowed r, Relation r) of
        (True, Some rel) \<Rightarrow> if relationRank (snd st) \<le> relationRank rel then rel else snd st
      | _ \<Rightarrow> snd st)"
  by (cases st) (simp add: effectiveStep_def IsRelationAtLeast_def split: option.splits)

lemma foldl_effectiveStep_fst:
  "set (fst (foldl (\<lambda>st p. effectiveStep st p (res p)) st perms)) =
     set (fst st) \<union> {p \<in> set perms. Allowed (res p)}
   \<and> (distinct (fst st) \<longrightarrow> distinct (fst (foldl (\<lambda>st p. effectiveStep st p (res p)) st perms)))"
  by (induction perms arbitrary: st)
    (auto simp: effectiveStep_fst set_setKey distinct_setKey)

lemma foldl_effectiveStep_snd:
  fixes res :: "Permission \<Rightarrow> CheckResult"
  defines "final st perms \<equiv> snd (foldl (\<lambda>st p. effectiveStep st p (res p)) st perms)"
  shows "relationRank (snd st) \<le> relationRank (final st perms)
   \<and> (\<forall>p \<in> set perms. \<forall>rel. Allowed (res p) \<and> Relation (res p) = Some rel \<longrightarrow>
         relationRank rel \<le> relationRank (final st perms))
   \<and> (final st perms = snd st
       \<or> (\<exists>p \<in> set perms. Allowed (res p) \<and> Relation (res p) = Some (final st perms)))"
proof (induction perms arbitrary: st)
  case Nil
  show ?case by (simp add: final_def)
next
  case (Cons p perms)
  let ?st = "effectiveStep st p (res p)"
  have unfold: "final st (p # perms) = final ?st perms" by (simp add: final_def)
  have mono: "relationRank (snd st) \<le> relationRank (snd ?st)"
    by (simp add: effectiveStep_snd split: option.splits bool.splits)
  have here: "relationRank rel \<le> relationRank (snd ?st)"
    if "Allowed (res p)" "Relation (res p) = Some rel" for rel
    using that by (simp add: effectiveStep_snd)
  have origin: "snd ?st = snd st \<or> (Allowed (res p) \<and> Relation (res p) = Some (snd ?st))"
    by (simp add: effectiveStep_snd split: option.splits bool.splits)
  note IH = Cons.IH[of ?st]
  show ?case
    unfolding unfold
  proof (intro conjI ballI allI impI)
    show "relationRank (snd st) \<le> relationRank (final ?st perms)"
      using IH mono by (meson le_trans)
  next
    fix q rel
    assume "q \<in> set (p # perms)" and "Allowed (res q) \<and> Relation (res q) = Some rel"
    then show "relationRank rel \<le> relationRank (final ?st perms)"
      using IH here by (metis le_trans set_ConsD)
  next
    show "final ?st perms = snd st
       \<or> (\<exists>p \<in> set (p # perms). Allowed (res p) \<and> Relation (res p) = Some (final ?st perms))"
      using IH origin by (metis list.set_intros(1) list.set_intros(2))
  qed
qed

lemma set_allPermissions: "set allPermissions = UNIV"
proof -
  have "p \<in> set allPermissions" for p
    by (cases p) (simp_all add: allPermissions_def)
  then show ?thesis by blast
qed

lemma setKeys_props:
  "set (setKeys m ks) = set m \<union> set ks \<and> (distinct m \<longrightarrow> distinct (setKeys m ks))"
  unfolding setKeys_def
  by (induction ks arbitrary: m) (auto simp: set_setKey distinct_setKey)

lemma addRoleResources_props:
  "set (addRoleResources e tenantID resourceType m roleID) =
     set m \<union> listedIDs e tenantID SubjectTypeRole roleID resourceType
   \<and> (distinct m \<longrightarrow> distinct (addRoleResources e tenantID resourceType m roleID))"
  using setKeys_props[of m]
  by (auto simp: addRoleResources_def listedIDs_def split: sum.splits)

lemma foldl_addRoleResources_props:
  "set (foldl (addRoleResources e tenantID resourceType) m roleIDs) =
     set m \<union> (\<Union>roleID \<in> set roleIDs. listedIDs e tenantID SubjectTypeRole roleID resourceType)
   \<and> (distinct m \<longrightarrow> distinct (foldl (addRoleResources e tenantID resourceType) m roleIDs))"
proof (induction roleIDs arbitrary: m)
  case Nil
  show ?case by simp
next
  case (Cons r roleIDs)
  show ?case
    using Cons.IH[of "addRoleResources e tenantID resourceType m r"]
      addRoleResources_props[of e tenantID resourceType m r]
    by auto
qed

section \<open>Evaluation order and direct checks\<close>

text \<open>
  Claim C1. For every tenant, user, resource and permission, \<open>Check\<close> evaluates the
  candidate grants in strict order: the direct user tuple on the target resource, then a
  direct tuple for each role id in the order the role lookup returned them, then the
  tenant wildcard tuple with subject id "all", then hierarchy inheritance. It returns the
  first allowing result, and the denial "no permission found" when no step allows.
  \<open>Check\<close> is the search of \<open>CheckAsSpecified\<close>.
\<close>

theorem Check_evaluates_in_order:
  "Check e now check = CheckAsSpecified e now check"
  by (auto simp: Check_def CheckAsSpecified_def Let_def find_append_cases checkRoles_find
      split: prod.splits option.splits)

text \<open>With roles returned as R1, R2 the viewer tuple of R1 wins over the owner tuple of
  R2 and over the tenant tuple.\<close>

theorem Check_evaluates_in_order_witness:
  "Check twoRolesEngine 10 (readDocument ''U'' ''D'') =
     Some \<lparr>Allowed = True, Relation = Some RelationViewer, Reason = ''direct permission''\<rparr>"
proof -
  have "CheckAsSpecified twoRolesEngine 10 (readDocument ''U'' ''D'') =
     Some \<lparr>Allowed = True, Relation = Some RelationViewer, Reason = ''direct permission''\<rparr>"
    by (simp add: CheckAsSpecified_def twoRolesEngine_def engine_defs scenario_defs)
  then show ?thesis
    using Check_evaluates_in_order[of twoRolesEngine 10 "readDocument ''U'' ''D''"] by simp
qed

text \<open>
  Claim C2. When the store returns a tuple whose \<open>ExpiresAt\<close> is set and lies before the
  current time, the direct check on that tuple fails with the reason "permission expired",
  whatever the relation of the tuple.
\<close>

theorem expired_tuple_denied:
  assumes "HasPermission (store e) (TenantID check) (ResourceType check) (ResourceID check)
             subjectType subjectID = Inr (Some tuple)"
    and "ExpiresAt tuple = Some t" and "t < now"
  shows "checkDirectPermission e now check subjectType subjectID =
           \<lparr>Allowed = False, Relation = None, Reason = ''permission expired''\<rparr>"
  using assms by (simp add: checkDirectPermission_def)

text \<open>An owner tuple that expired at time 5 is checked at time 10 for Read, which Owner
  grants.\<close>

theorem expired_tuple_denied_witness:
  "RelationGrantsPermission RelationOwner PermissionRead \<and>
   checkDirectPermission expiredOwnerEngine 10 (readDocument ''U'' ''D'') SubjectTypeUser ''U'' =
   \<lparr>Allowed = False, Relation = None, Reason = ''permission expired''\<rparr>"
proof -
  let ?t = "grantTuple ResourceTypeDocument ''D'' RelationOwner SubjectTypeUser ''U'' (Some 5)"
  have h1: "HasPermission (store expiredOwnerEngine) (TenantID (readDocument ''U'' ''D''))
              (ResourceType (readDocument ''U'' ''D'')) (ResourceID (readDocument ''U'' ''D''))
              SubjectTypeUser ''U'' = Inr (Some ?t)"
    by (simp add: expiredOwnerEngine_def scenario_defs)
  have h2: "ExpiresAt ?t = Some 5" by (simp add: grantTuple_def)
  have h3: "(5::int) < 10" by simp
  show ?thesis using expired_tuple_denied[OF h1 h2 h3] by simp
qed

section \<open>The hierarchy walk: termination and inheritance\<close>

text \<open>
  Claim C3. The upward hierarchy walk of \<open>Check\<close> terminates for every hierarchy shape,
  cyclic ones included. A hierarchy is a finite table of categories, so the ids that
  occur as a parent form a finite set; on such a lookup \<open>checkHierarchy\<close> and \<open>Check\<close>
  return. The set of visited ids is kept across the walk, and the walk stops with a denial
  when the next parent id has been visited. With \<open>parent(c1) = c2\<close>, \<open>parent(c2) = c1\<close>
  and no tuple anywhere, \<open>Check\<close> for a category \<open>c1\<close> returns the denial
  "no permission found".
\<close>

theorem hierarchy_walk_terminates:
  "(finite {p. \<exists>c. GetCategoryParentID (lookup e) (TenantID check) c = Inr (Some p)} \<longrightarrow>
      (\<exists>r. checkHierarchy e now check roleIDs = Some r) \<and> (\<exists>r. Check e now check = Some r))
   \<and> (categoryID \<in> visited \<longrightarrow>
        hierarchyWalk e now check roleIDs visited (Some categoryID) =
          Some \<lparr>Allowed = False, Relation = None, Reason = ''no inherited permission''\<rparr>)
   \<and> (ResourceType check = ResourceTypeCategory \<and> ResourceID check = c1
        \<and> GetCategoryParentID (lookup e) (TenantID check) c1 = Inr (Some c2)
        \<and> GetCategoryParentID (lookup e) (TenantID check) c2 = Inr (Some c1)
        \<and> (\<forall>rt rid st sid. HasPermission (store e) (TenantID check) rt rid st sid = Inr None)
      \<longrightarrow> Check e now check =
            Some \<lparr>Allowed = False, Relation = None, Reason = ''no permission found''\<rparr>)"
proof (intro conjI impI)
  assume "finite {p. \<exists>c. GetCategoryParentID (lookup e) (TenantID check) c = Inr (Some p)}"
  then show "\<exists>r. checkHierarchy e now check roleIDs = Some r"
    by (rule checkHierarchy_returns)
next
  assume "finite {p. \<exists>c. GetCategoryParentID (lookup e) (TenantID check) c = Inr (Some p)}"
  then show "\<exists>r. Check e now check = Some r"
    by (rule Check_returns)
next
  assume "categoryID \<in> visited"
  then show "hierarchyWalk e now check roleIDs visited (Some categoryID) =
          Some \<lparr>Allowed = False, Relation = None, Reason = ''no inherited permission''\<rparr>"
    by (simp add: hierarchyWalk_stops_at_visited noInherited_def)
next
  assume "ResourceType check = ResourceTypeCategory \<and> ResourceID check = c1
        \<and> GetCategoryParentID (lookup e) (TenantID check) c1 = Inr (Some c2)
        \<and> GetCategoryParentID (lookup e) (TenantID check) c2 = Inr (Some c1)
        \<and> (\<forall>rt rid st sid. HasPermission (store e) (TenantID check) rt rid st sid = Inr None)"
  then show "Check e now check =
            Some \<lparr>Allowed = False, Relation = None, Reason = ''no permission found''\<rparr>"
    using cyclic_denied[of check c1 e c2 now] by (simp add: noPermissionFound_def)
qed

theorem hierarchy_walk_terminates_witness:
  "(\<exists>r. checkHierarchy cyclicEngine 10 (readCategory ''U'' ''C1'') [] = Some r)
   \<and> hierarchyWalk cyclicEngine 10 (readCategory ''U'' ''C1'') [] {''C2''} (Some ''C2'') =
       Some \<lparr>Allowed = False, Relation = None, Reason = ''no inherited permission''\<rparr>
   \<and> Check cyclicEngine 10 (readCategory ''U'' ''C1'') =
       Some \<lparr>Allowed = False, Relation = None, Reason = ''no permission found''\<rparr>"
proof -
  let ?c = "readCategory ''U'' ''C1''"
  have h1: "finite {p. \<exists>c. GetCategoryParentID (lookup cyclicEngine) (TenantID ?c) c = Inr (Some p)}"
    by (simp add: cyclicEngine_def tableLookup_finite)
  have h2: "''C2'' \<in> {''C2''}" by simp
  have h3: "ResourceType ?c = ResourceTypeCategory \<and> ResourceID ?c = ''C1''
        \<and> GetCategoryParentID (lookup cyclicEngine) (TenantID ?c) ''C1'' = Inr (Some ''C2'')
        \<and> GetCategoryParentID (lookup cyclicEngine) (TenantID ?c) ''C2'' = Inr (Some ''C1'')
        \<and> (\<forall>rt rid st sid. HasPermission (store cyclicEngine) (TenantID ?c) rt rid st sid = Inr None)"
    by (simp add: scenario_defs2)
  show ?thesis
    using hierarchy_walk_terminates[where e = cyclicEngine and check = ?c and now = 10
        and roleIDs = "[]" and categoryID = "''C2''" and visited = "{''C2''}"
        and ?c1.0 = "''C1''" and ?c2.0 = "''C2''"]
      h1 h2 h3 by blast
qed

text \<open>
  Claim C4. If the only tuple is an Owner tuple on category \<open>c1\<close>, category \<open>c2\<close> has parent
  \<open>c1\<close> and the document belongs to \<open>c2\<close>, then \<open>Check\<close> for Read on the document allows,
  with the reason rewritten to "inherited from parent category" when the user holds the
  tuple, and to the "via role" and "via tenant" variants when one of the user's roles or
  the tenant wildcard holds it. The tuple is a live grant: it has no expiry or one that is
  not before the current time. The role ids are those \<open>Check\<close> obtained from its one lookup;
  the walk receives them as an argument and does not consult the role lookup again, so
  replacing the role lookup does not change the result of the hierarchy step.
\<close>

theorem inherited_owner_grants_read:
  "(ResourceType check = ResourceTypeDocument \<and> Permission check = PermissionRead
     \<and> GetDocumentCategoryID (lookup e) (TenantID check) (ResourceID check) = Inr (Some c2)
     \<and> GetCategoryParentID (lookup e) (TenantID check) c2 = Inr (Some c1)
     \<and> GetUserRoleIDs (lookup e) (TenantID check) (UserID check) = (roleIDs, roleErr)
     \<and> ((subjectType = SubjectTypeUser \<and> subjectID = UserID check)
          \<or> (subjectType = SubjectTypeRole \<and> subjectID \<in> set roleIDs)
          \<or> (subjectType = SubjectTypeTenant \<and> subjectID = ''all''))
     \<and> HasPermission (store e) (TenantID check) ResourceTypeCategory c1 subjectType subjectID
           = Inr (Some tuple)
     \<and> PermissionTuple.Relation tuple = RelationOwner
     \<and> (\<forall>t. ExpiresAt tuple = Some t \<longrightarrow> \<not> t < now)
     \<and> (\<forall>rt rid st sid. (rt, rid, st, sid) \<noteq> (ResourceTypeCategory, c1, subjectType, subjectID)
           \<longrightarrow> HasPermission (store e) (TenantID check) rt rid st sid = Inr None)
    \<longrightarrow> Check e now check =
          Some \<lparr>Allowed = True, Relation = Some RelationOwner,
                Reason = (case subjectType of
                            SubjectTypeUser \<Rightarrow> ''inherited from parent category''
                          | SubjectTypeRole \<Rightarrow> ''inherited from parent category via role''
                          | SubjectTypeTenant \<Rightarrow> ''inherited from parent category via tenant'')\<rparr>)
   \<and> checkHierarchy (e\<lparr>lookup := (lookup e)\<lparr>GetUserRoleIDs := g\<rparr>\<rparr>) now check roleIDs =
       checkHierarchy e now check roleIDs"
proof (intro conjI impI)
  show "checkHierarchy (e\<lparr>lookup := (lookup e)\<lparr>GetUserRoleIDs := g\<rparr>\<rparr>) now check roleIDs =
       checkHierarchy e now check roleIDs"
    by (rule checkHierarchy_ignores_role_lookup)
next
  let ?reason = "case subjectType of
                            SubjectTypeUser \<Rightarrow> ''inherited from parent category''
                          | SubjectTypeRole \<Rightarrow> ''inherited from parent category via role''
                          | SubjectTypeTenant \<Rightarrow> ''inherited from parent category via tenant''"
  let ?ok = "\<lparr>Allowed = True, Relation = Some RelationOwner, Reason = ?reason\<rparr>"
  assume a: "ResourceType check = ResourceTypeDocument \<and> Permission check = PermissionRead
     \<and> GetDocumentCategoryID (lookup e) (TenantID check) (ResourceID check) = Inr (Some c2)
     \<and> GetCategoryParentID (lookup e) (TenantID check) c2 = Inr (Some c1)
     \<and> GetUserRoleIDs (lookup e) (TenantID check) (UserID check) = (roleIDs, roleErr)
     \<and> ((subjectType = SubjectTypeUser \<and> subjectID = UserID check)
          \<or> (subjectType = SubjectTypeRole \<and> subjectID \<in> set roleIDs)
          \<or> (subjectType = SubjectTypeTenant \<and> subjectID = ''all''))
     \<and> HasPermission (store e) (TenantID check) ResourceTypeCategory c1 subjectType subjectID
           = Inr (Some tuple)
     \<and> PermissionTuple.Relation tuple = RelationOwner
     \<and> (\<forall>t. ExpiresAt tuple = Some t \<longrightarrow> \<not> t < now)
     \<and> (\<forall>rt rid st sid. (rt, rid, st, sid) \<noteq> (ResourceTypeCategory, c1, subjectType, subjectID)
           \<longrightarrow> HasPermission (store e) (TenantID check) rt rid st sid = Inr None)"
  then have doc: "ResourceType check = ResourceTypeDocument"
    and cat: "GetDocumentCategoryID (lookup e) (TenantID check) (ResourceID check) = Inr (Some c2)"
    and par: "GetCategoryParentID (lookup e) (TenantID check) c2 = Inr (Some c1)"
    and roles: "GetUserRoleIDs (lookup e) (TenantID check) (UserID check) = (roleIDs, roleErr)"
    and holder: "(subjectType = SubjectTypeUser \<and> subjectID = UserID check)
          \<or> (subjectType = SubjectTypeRole \<and> subjectID \<in> set roleIDs)
          \<or> (subjectType = SubjectTypeTenant \<and> subjectID = ''all'')"
    and tuple: "HasPermission (store e) (TenantID check) ResourceTypeCategory c1 subjectType subjectID
           = Inr (Some tuple)"
    and owner: "PermissionTuple.Relation tuple = RelationOwner"
    and live: "\<forall>t. ExpiresAt tuple = Some t \<longrightarrow> \<not> t < now"
    by simp_all
  from a have others: "HasPermission (store e) (TenantID check) rt rid st sid = Inr None"
    if "(rt, rid, st, sid) \<noteq> (ResourceTypeCategory, c1, subjectType, subjectID)" for rt rid st sid
    using that by blast
  have direct: "\<not> Allowed (checkDirectPermission e now check st sid)" for st sid
    using others[of "ResourceType check" "ResourceID check" st sid] doc
    by (simp add: checkDirectPermission_def)
  have noRoles: "checkRoles e now check roleIDs = None"
    by (rule checkRoles_all_denied) (rule direct)
  have grants: "RelationGrantsPermission (PermissionTuple.Relation tuple) (Permission check)"
    using owner by simp
  have match: "hierarchyWalk e now check roleIDs visited (Some c1) = Some ?ok"
    if "c1 \<notin> visited" for visited
  proof -
    have "hierarchyWalk e now check roleIDs visited (Some c1) =
            Some \<lparr>Allowed = True, Relation = Some (PermissionTuple.Relation tuple),
                  Reason = ?reason\<rparr>"
    proof (rule hierarchyWalk_level_match[OF holder tuple live grants])
      show "HasPermission (store e) (TenantID check) ResourceTypeCategory c1 st' sid' = Inr None"
        if "(st', sid') \<noteq> (subjectType, subjectID)" for st' sid'
        using that by (intro others) simp
      show "c1 \<notin> visited" by (rule that)
    qed
    then show ?thesis using owner by simp
  qed
  have "hierarchyWalk e now check roleIDs {} (Some c2) = Some ?ok"
  proof (cases "c2 = c1")
    case True
    then show ?thesis using match[of "{}"] by simp
  next
    case False
    have "hierarchyWalk e now check roleIDs {} (Some c2) =
          hierarchyWalk e now check roleIDs {c2} (Some c1)"
      using False others par by (subst hierarchyWalk_level_none) simp_all
    then show ?thesis using match[of "{c2}"] False by simp
  qed
  then have "checkHierarchy e now check roleIDs = Some ?ok"
    using doc cat by (simp add: checkHierarchy_def)
  then show "Check e now check = Some ?ok"
    using direct noRoles roles by (simp add: Check_def Let_def)
qed

theorem inherited_owner_grants_read_witness:
  "Check (inheritanceEngine SubjectTypeUser ''U'') 10 (readDocument ''U'' ''D'') =
     Some \<lparr>Allowed = True, Relation = Some RelationOwner,
           Reason = ''inherited from parent category''\<rparr>
   \<and> Check (inheritanceEngine SubjectTypeRole ''R2'') 10 (readDocument ''U'' ''D'') =
     Some \<lparr>Allowed = True, Relation = Some RelationOwner,
           Reason = ''inherited from parent category via role''\<rparr>
   \<and> Check (inheritanceEngine SubjectTypeTenant ''all'') 10 (readDocument ''U'' ''D'') =
     Some \<lparr>Allowed = True, Relation = Some RelationOwner,
           Reason = ''inherited from parent category via tenant''\<rparr>"
proof -
  let ?c = "readDocument ''U'' ''D''"
  have hyp: "ResourceType ?c = ResourceTypeDocument \<and> Permission ?c = PermissionRead
     \<and> GetDocumentCategoryID (lookup (inheritanceEngine st sid)) (TenantID ?c) (ResourceID ?c)
           = Inr (Some ''C2'')
     \<and> GetCategoryParentID (lookup (inheritanceEngine st sid)) (TenantID ?c) ''C2'' = Inr (Some ''C1'')
     \<and> GetUserRoleIDs (lookup (inheritanceEngine st sid)) (TenantID ?c) (UserID ?c)
           = ([''R1'', ''R2''], None)
     \<and> ((st = SubjectTypeUser \<and> sid = UserID ?c)
          \<or> (st = SubjectTypeRole \<and> sid \<in> set [''R1'', ''R2''])
          \<or> (st = SubjectTypeTenant \<and> sid = ''all''))
     \<and> HasPermission (store (inheritanceEngine st sid)) (TenantID ?c) ResourceTypeCategory ''C1'' st sid
           = Inr (Some (grantTuple ResourceTypeCategory ''C1'' RelationOwner st sid None))
     \<and> PermissionTuple.Relation (grantTuple ResourceTypeCategory ''C1'' RelationOwner st sid None)
           = RelationOwner
     \<and> (\<forall>t. ExpiresAt (grantTuple ResourceTypeCategory ''C1'' RelationOwner st sid None) = Some t
            \<longrightarrow> \<not> t < 10)
     \<and> (\<forall>rt rid st' sid'. (rt, rid, st', sid') \<noteq> (ResourceTypeCategory, ''C1'', st, sid)
           \<longrightarrow> HasPermission (store (inheritanceEngine st sid)) (TenantID ?c) rt rid st' sid' = Inr None)"
    if "(st = SubjectTypeUser \<and> sid = ''U'') \<or> (st = SubjectTypeRole \<and> sid = ''R2'')
        \<or> (st = SubjectTypeTenant \<and> sid = ''all'')" for st sid
    using that by (auto simp: inheritanceEngine_def scenario_defs)
  note inst = inherited_owner_grants_read[where check = ?c and now = 10 and ?c1.0 = "''C1''"
      and ?c2.0 = "''C2''" and roleIDs = "[''R1'', ''R2'']" and roleErr = None, THEN conjunct1, rule_format]
  show ?thesis
    using inst[OF hyp[of SubjectTypeUser "''U''"]] inst[OF hyp[of SubjectTypeRole "''R2''"]]
      inst[OF hyp[of SubjectTypeTenant "''all''"]]
    by simp
qed

section \<open>Errors and cancellation\<close>

text \<open>
  Claim C5. When the store's \<open>HasPermission\<close> returns an error in a direct check, that
  check yields the denial "error checking permission". The error does not reach the
  caller of \<open>Check\<close>, whose result has no error component: with the error on the user's
  direct check the role branch and the tenant branch are still evaluated and their
  allowing result is returned, and on a finite hierarchy \<open>Check\<close> returns a result.
\<close>

theorem store_error_denies_only_the_subcheck:
  "(HasPermission (store e) (TenantID check) (ResourceType check) (ResourceID check)
      subjectType subjectID = Inl err \<longrightarrow>
    checkDirectPermission e now check subjectType subjectID =
      \<lparr>Allowed = False, Relation = None, Reason = ''error checking permission''\<rparr>)
   \<and> (HasPermission (store e) (TenantID check) (ResourceType check) (ResourceID check)
         SubjectTypeUser (UserID check) = Inl err
       \<and> GetUserRoleIDs (lookup e) (TenantID check) (UserID check) = (roleIDs, None)
       \<and> checkRoles e now check roleIDs = Some r \<longrightarrow>
       Check e now check = Some r)
   \<and> (HasPermission (store e) (TenantID check) (ResourceType check) (ResourceID check)
         SubjectTypeUser (UserID check) = Inl err
       \<and> GetUserRoleIDs (lookup e) (TenantID check) (UserID check) = (roleIDs, roleErr)
       \<and> (roleErr \<noteq> None \<or> checkRoles e now check roleIDs = None)
       \<and> Allowed (checkDirectPermission e now check SubjectTypeTenant ''all'') \<longrightarrow>
       Check e now check = Some (checkDirectPermission e now check SubjectTypeTenant ''all''))
   \<and> (HasPermission (store e) (TenantID check) (ResourceType check) (ResourceID check)
         SubjectTypeUser (UserID check) = Inl err
       \<and> finite {p. \<exists>c. GetCategoryParentID (lookup e) (TenantID check) c = Inr (Some p)} \<longrightarrow>
       (\<exists>result. Check e now check = Some result))"
proof (intro conjI impI)
  assume "HasPermission (store e) (TenantID check) (ResourceType check) (ResourceID check)
      subjectType subjectID = Inl err"
  then show "checkDirectPermission e now check subjectType subjectID =
      \<lparr>Allowed = False, Relation = None, Reason = ''error checking permission''\<rparr>"
    by (simp add: checkDirectPermission_def)
next
  assume "HasPermission (store e) (TenantID check) (ResourceType check) (ResourceID check)
         SubjectTypeUser (UserID check) = Inl err
       \<and> GetUserRoleIDs (lookup e) (TenantID check) (UserID check) = (roleIDs, None)
       \<and> checkRoles e now check roleIDs = Some r"
  then show "Check e now check = Some r"
    by (simp add: Check_def Let_def checkDirectPermission_def)
next
  assume a: "HasPermission (store e) (TenantID check) (ResourceType check) (ResourceID check)
         SubjectTypeUser (UserID check) = Inl err
       \<and> GetUserRoleIDs (lookup e) (TenantID check) (UserID check) = (roleIDs, roleErr)
       \<and> (roleErr \<noteq> None \<or> checkRoles e now check roleIDs = None)
       \<and> Allowed (checkDirectPermission e now check SubjectTypeTenant ''all'')"
  then have user: "\<not> Allowed (checkDirectPermission e now check SubjectTypeUser (UserID check))"
    by (simp add: checkDirectPermission_def)
  have "(if roleErr \<noteq> None then None else checkRoles e now check roleIDs) = None"
    using a by auto
  then show "Check e now check = Some (checkDirectPermission e now check SubjectTypeTenant ''all'')"
    using a user by (simp add: Check_def Let_def)
next
  assume "HasPermission (store e) (TenantID check) (ResourceType check) (ResourceID check)
         SubjectTypeUser (UserID check) = Inl err
       \<and> finite {p. \<exists>c. GetCategoryParentID (lookup e) (TenantID check) c = Inr (Some p)}"
  then show "\<exists>result. Check e now check = Some result"
    using Check_returns by blast
qed

text \<open>The store fails for the user subject; the viewer tuple of role R1, respectively the
  editor tuple of the tenant wildcard, still allows.\<close>

theorem store_error_witness:
  "checkDirectPermission (userErrorEngine roleViewerTuples) 10 (readDocument ''U'' ''D'')
      SubjectTypeUser ''U'' =
     \<lparr>Allowed = False, Relation = None, Reason = ''error checking permission''\<rparr>
   \<and> Check (userErrorEngine roleViewerTuples) 10 (readDocument ''U'' ''D'') =
       Some \<lparr>Allowed = True, Relation = Some RelationViewer, Reason = ''direct permission''\<rparr>
   \<and> Check (userErrorEngine tenantEditorTuples) 10 (readDocument ''U'' ''D'') =
       Some \<lparr>Allowed = True, Relation = Some RelationEditor, Reason = ''direct permission''\<rparr>"
proof -
  let ?c = "readDocument ''U'' ''D''"
  let ?e1 = "userErrorEngine roleViewerTuples"
  let ?e2 = "userErrorEngine tenantEditorTuples"
  let ?viewer = "\<lparr>Allowed = True, Relation = Some RelationViewer, Reason = ''direct permission''\<rparr>"
  have u1: "HasPermission (store ?e1) (TenantID ?c) (ResourceType ?c) (ResourceID ?c)
              SubjectTypeUser (UserID ?c) = Inl ''store unavailable''"
    by (simp add: scenario_defs2)
  have u2: "HasPermission (store ?e2) (TenantID ?c) (ResourceType ?c) (ResourceID ?c)
              SubjectTypeUser (UserID ?c) = Inl ''store unavailable''"
    by (simp add: scenario_defs2)
  have r1: "GetUserRoleIDs (lookup ?e1) (TenantID ?c) (UserID ?c) = ([''R1''], None)"
    by (simp add: scenario_defs2)
  have r2: "GetUserRoleIDs (lookup ?e2) (TenantID ?c) (UserID ?c) = ([''R1''], None)"
    by (simp add: scenario_defs2)
  have c1: "checkRoles ?e1 10 ?c [''R1''] = Some ?viewer"
    by (simp add: scenario_defs2 roleViewerTuples_def checkDirectPermission_def)
  have c2: "checkRoles ?e2 10 ?c [''R1''] = None"
    by (simp add: scenario_defs2 tenantEditorTuples_def checkDirectPermission_def)
  have t2: "checkDirectPermission ?e2 10 ?c SubjectTypeTenant ''all'' =
      \<lparr>Allowed = True, Relation = Some RelationEditor, Reason = ''direct permission''\<rparr>"
    by (simp add: scenario_defs2 tenantEditorTuples_def checkDirectPermission_def)
  have f1: "finite {p. \<exists>c. GetCategoryParentID (lookup ?e1) (TenantID ?c) c = Inr (Some p)}"
    by (simp add: userErrorEngine_def tableLookup_finite)
  note thm1 = store_error_denies_only_the_subcheck[where e = ?e1 and check = ?c and now = 10
      and subjectType = SubjectTypeUser and subjectID = "''U''" and err = "''store unavailable''"
      and roleIDs = "[''R1'']" and r = ?viewer and roleErr = None]
  note thm2 = store_error_denies_only_the_subcheck[where e = ?e2 and check = ?c and now = 10
      and subjectType = SubjectTypeUser and subjectID = "''U''" and err = "''store unavailable''"
      and roleIDs = "[''R1'']" and r = ?viewer and roleErr = None]
  have "UserID ?c = ''U''" by (simp add: readDocument_def)
  then show ?thesis
    using thm1 thm2 u1 u2 r1 r2 c1 c2 t2 f1 by simp
qed

text \<open>
  Claim C6. A cancelled check is never reported as allowed: when every port call, of the
  store and of the hierarchy and role lookup, returns an error, \<open>Check\<close> returns the denial.
\<close>

theorem cancelled_check_denied:
  assumes "\<forall>rt rid st sid. isl (HasPermission (store e) (TenantID check) rt rid st sid)"
    and "\<forall>c. isl (GetCategoryParentID (lookup e) (TenantID check) c)"
    and "\<forall>d. isl (GetDocumentCategoryID (lookup e) (TenantID check) d)"
    and "snd (GetUserRoleIDs (lookup e) (TenantID check) (UserID check)) \<noteq> None"
  shows "Check e now check =
           Some \<lparr>Allowed = False, Relation = None, Reason = ''no permission found''\<rparr>"
proof -
  have deny: "\<not> Allowed (checkDirectPermission e now check st sid)" for st sid
  proof -
    have "isl (HasPermission (store e) (TenantID check) (ResourceType check) (ResourceID check)
                st sid)"
      using assms(1) by blast
    then show ?thesis by (auto simp: checkDirectPermission_def split: sum.splits)
  qed
  have "\<exists>r. checkHierarchy e now check roleIDs = Some r \<and> \<not> Allowed r" for roleIDs
  proof -
    have "isl (GetCategoryParentID (lookup e) (TenantID check) (ResourceID check))"
      and "isl (GetDocumentCategoryID (lookup e) (TenantID check) (ResourceID check))"
      using assms(2,3) by blast+
    moreover have "hierarchyWalk e now check roleIDs {} None = Some noInherited"
      by (subst hierarchyWalk.simps) simp
    ultimately show ?thesis
      by (cases "ResourceType check")
        (auto simp: checkHierarchy_def noInherited_def split: sum.splits)
  qed
  note hier = this
  obtain roleIDs err where
    roles: "GetUserRoleIDs (lookup e) (TenantID check) (UserID check) = (roleIDs, err)"
    by (cases "GetUserRoleIDs (lookup e) (TenantID check) (UserID check)")
  with assms(4) have err: "err \<noteq> None" by simp
  obtain h where h: "checkHierarchy e now check roleIDs = Some h" "\<not> Allowed h"
    using hier by blast
  show ?thesis
    using roles err h deny by (simp add: Check_def Let_def noPermissionFound_def)
qed

theorem cancelled_check_denied_witness:
  "Check failingEngine 10 (readDocument ''U'' ''D'') =
     Some \<lparr>Allowed = False, Relation = None, Reason = ''no permission found''\<rparr>"
proof -
  let ?c = "readDocument ''U'' ''D''"
  have h1: "\<forall>rt rid st sid. isl (HasPermission (store failingEngine) (TenantID ?c) rt rid st sid)"
    by (simp add: scenario_defs2)
  have h2: "\<forall>c. isl (GetCategoryParentID (lookup failingEngine) (TenantID ?c) c)"
    by (simp add: scenario_defs2)
  have h3: "\<forall>d. isl (GetDocumentCategoryID (lookup failingEngine) (TenantID ?c) d)"
    by (simp add: scenario_defs2)
  have h4: "snd (GetUserRoleIDs (lookup failingEngine) (TenantID ?c) (UserID ?c)) \<noteq> None"
    by (simp add: scenario_defs2)
  show ?thesis using cancelled_check_denied[OF h1 h2 h3 h4] .
qed

section \<open>Aggregation and listing\<close>

text \<open>
  Claim C7. \<open>GetEffectivePermissions\<close> runs \<open>Check\<close> once per permission in the fixed order
  Read, Write, Delete, Share, Download. It returns exactly the permissions for which
  \<open>Check\<close> allowed, each once. The relation of each allowing check is folded into a running
  maximum under the ranking Owner > Editor > Sharer > Viewer > Unspecified: the returned
  relation ranks at least as high as the relation of every allowing check and is one of
  them or Unspecified. An allowing check without a relation leaves the maximum as it is,
  and the relation is Unspecified when no permission is allowed. Here \<open>res p\<close> is the result
  \<open>Check\<close> returns for permission \<open>p\<close>.
\<close>

theorem effective_permissions_aggregate_checks:
  assumes "\<forall>p. Check e now (check\<lparr>Permission := p\<rparr>) = Some (res p)"
  shows "\<exists>perms highest.
      GetEffectivePermissions e now check = Some (perms, highest)
    \<and> (perms, highest) =
          foldl (\<lambda>st p. effectiveStep st p (res p)) ([], RelationUnspecified)
            [PermissionRead, PermissionWrite, PermissionDelete, PermissionShare,
             PermissionDownload]
    \<and> distinct perms \<and> set perms = {p. Allowed (res p)}
    \<and> (\<forall>p rel. Allowed (res p) \<and> Relation (res p) = Some rel \<longrightarrow>
          relationRank rel \<le> relationRank highest)
    \<and> (highest = RelationUnspecified
        \<or> (\<exists>p. Allowed (res p) \<and> Relation (res p) = Some highest))
    \<and> ((\<forall>p. \<not> Allowed (res p)) \<longrightarrow> highest = RelationUnspecified)
    \<and> (\<forall>st p r. Allowed r \<and> Relation r = None \<longrightarrow> snd (effectiveStep st p r) = snd st)
    \<and> relationRank RelationUnspecified < relationRank RelationViewer
    \<and> relationRank RelationViewer < relationRank RelationSharer
    \<and> relationRank RelationSharer < relationRank RelationEditor
    \<and> relationRank RelationEditor < relationRank RelationOwner"
proof -
  let ?f = "\<lambda>st p. effectiveStep st p (res p)"
  let ?final = "foldl ?f ([], RelationUnspecified) allPermissions"
  have run: "GetEffectivePermissions e now check = Some ?final"
    using assms by (simp add: GetEffectivePermissions_def effectiveLoop_foldl)
  have perms: "distinct (fst ?final)" "set (fst ?final) = {p. Allowed (res p)}"
    using foldl_effectiveStep_fst[of res "([], RelationUnspecified)" allPermissions]
    by (simp_all add: set_allPermissions)
  have rel: "\<forall>p rel. Allowed (res p) \<and> Relation (res p) = Some rel \<longrightarrow>
               relationRank rel \<le> relationRank (snd ?final)"
    and origin: "snd ?final = RelationUnspecified
       \<or> (\<exists>p. Allowed (res p) \<and> Relation (res p) = Some (snd ?final))"
    using foldl_effectiveStep_snd[of "([], RelationUnspecified)" res allPermissions]
    by (simp_all add: set_allPermissions)
  have none: "(\<forall>p. \<not> Allowed (res p)) \<longrightarrow> snd ?final = RelationUnspecified"
    using origin by blast
  have step: "\<forall>st p r. Allowed r \<and> Relation r = None \<longrightarrow> snd (effectiveStep st p r) = snd st"
    by (simp add: effectiveStep_snd)
  have "GetEffectivePermissions e now check = Some (fst ?final, snd ?final)"
    using run by simp
  moreover have "(fst ?final, snd ?final) =
          foldl ?f ([], RelationUnspecified)
            [PermissionRead, PermissionWrite, PermissionDelete, PermissionShare,
             PermissionDownload]"
    by (simp add: allPermissions_def)
  ultimately show ?thesis
    using perms rel origin none step by (intro exI[of _ "fst ?final"] exI[of _ "snd ?final"]) simp
qed

text \<open>An editor of X has Read, Write and Download, and the highest relation Editor.\<close>

theorem effective_permissions_witness:
  "\<exists>perms. GetEffectivePermissions editorEngine 10 (readDocument ''U'' ''X'')
              = Some (perms, RelationEditor)
     \<and> distinct perms
     \<and> set perms = {PermissionRead, PermissionWrite, PermissionDownload}"
proof -
  let ?c = "readDocument ''U'' ''X''"
  let ?res = "\<lambda>p. if RelationGrantsPermission RelationEditor p
                   then \<lparr>Allowed = True, Relation = Some RelationEditor,
                         Reason = ''direct permission''\<rparr>
                   else \<lparr>Allowed = False, Relation = None, Reason = ''no permission found''\<rparr>"
  have h: "\<forall>p. Check editorEngine 10 (?c\<lparr>Permission := p\<rparr>) = Some (?res p)"
  proof
    fix p
    show "Check editorEngine 10 (?c\<lparr>Permission := p\<rparr>) = Some (?res p)"
      by (cases p)
        (simp_all add: editorEngine_def engine_defs scenario_defs hierarchyWalk.simps)
  qed
  have allowed: "{p. Allowed (?res p)} = {PermissionRead, PermissionWrite, PermissionDownload}"
    by auto
  obtain perms highest where
    r: "GetEffectivePermissions editorEngine 10 ?c = Some (perms, highest)"
    and f: "(perms, highest) =
          foldl (\<lambda>st p. effectiveStep st p (?res p)) ([], RelationUnspecified)
            [PermissionRead, PermissionWrite, PermissionDelete, PermissionShare,
             PermissionDownload]"
    and d: "distinct perms" and s: "set perms = {p. Allowed (?res p)}"
    using effective_permissions_aggregate_checks[OF h] by blast
  have "highest = RelationEditor"
    using f by (simp add: effectiveStep_def setKey_def IsRelationAtLeast_def)
  then show ?thesis using r d s allowed by simp
qed

text \<open>
  Claim C8. \<open>ListAccessibleResources\<close> returns exactly the deduplicated union of the resource
  ids the store lists for the user directly, for each of the user's roles and for the
  tenant wildcard "all", filtered by resource type only. An id appears at most once, the
  requested permission has no influence on the result, and a failure of the role lookup is
  treated as the user having no roles. The listing for the user is the one that has
  succeeded with \<open>userResources\<close>; a role or tenant listing that fails contributes nothing,
  and a failure of the user's own listing is returned to the caller.
\<close>

theorem accessible_resources_are_the_deduplicated_union:
  "(ListResourcesBySubject (store e) tenantID SubjectTypeUser userID resourceType
      = Inr userResources
    \<and> GetUserRoleIDs (lookup e) tenantID userID = (roleIDs, roleErr) \<longrightarrow>
    (\<exists>ids. ListAccessibleResources e tenantID userID resourceType permission = Inr ids
       \<and> distinct ids
       \<and> set ids =
           set userResources
           \<union> (\<Union>roleID \<in> (if roleErr = None then set roleIDs else {}).
                 listedIDs e tenantID SubjectTypeRole roleID resourceType)
           \<union> listedIDs e tenantID SubjectTypeTenant ''all'' resourceType))
   \<and> ListAccessibleResources e tenantID userID resourceType permission =
       ListAccessibleResources e tenantID userID resourceType permission'
   \<and> (ListResourcesBySubject (store e) tenantID SubjectTypeUser userID resourceType = Inl err
       \<longrightarrow> ListAccessibleResources e tenantID userID resourceType permission = Inl err)"
proof (intro conjI impI)
  show "ListAccessibleResources e tenantID userID resourceType permission =
       ListAccessibleResources e tenantID userID resourceType permission'"
    by (simp add: ListAccessibleResources_def)
next
  assume "ListResourcesBySubject (store e) tenantID SubjectTypeUser userID resourceType = Inl err"
  then show "ListAccessibleResources e tenantID userID resourceType permission = Inl err"
    by (simp add: ListAccessibleResources_def)
next
  assume a: "ListResourcesBySubject (store e) tenantID SubjectTypeUser userID resourceType
      = Inr userResources
    \<and> GetUserRoleIDs (lookup e) tenantID userID = (roleIDs, roleErr)"
  let ?roles = "if roleErr = None then set roleIDs else {}"
  define m1 where "m1 = setKeys [] userResources"
  define m2 where "m2 = (if roleErr \<noteq> None then m1
                         else foldl (addRoleResources e tenantID resourceType) m1 roleIDs)"
  define m3 where "m3 =
     (case ListResourcesBySubject (store e) tenantID SubjectTypeTenant ''all'' resourceType of
        Inl err \<Rightarrow> m2 | Inr tenantResources \<Rightarrow> setKeys m2 tenantResources)"
  have r: "ListAccessibleResources e tenantID userID resourceType permission = Inr m3"
    using a
    by (simp add: ListAccessibleResources_def m1_def m2_def m3_def Let_def split: sum.splits)
  have p1: "set m1 = set userResources" "distinct m1"
    using setKeys_props[of "[]" userResources] by (simp_all add: m1_def)
  have p2: "set m2 = set userResources
              \<union> (\<Union>roleID \<in> ?roles. listedIDs e tenantID SubjectTypeRole roleID resourceType)"
    "distinct m2"
    using p1 foldl_addRoleResources_props[of e tenantID resourceType m1 roleIDs]
    by (simp_all add: m2_def)
  have p3: "set m3 = set m2 \<union> listedIDs e tenantID SubjectTypeTenant ''all'' resourceType"
    "distinct m3"
    using p2(2) setKeys_props[of m2]
    by (auto simp: m3_def listedIDs_def split: sum.splits)
  show "\<exists>ids. ListAccessibleResources e tenantID userID resourceType permission = Inr ids
       \<and> distinct ids
       \<and> set ids =
           set userResources
           \<union> (\<Union>roleID \<in> ?roles. listedIDs e tenantID SubjectTypeRole roleID resourceType)
           \<union> listedIDs e tenantID SubjectTypeTenant ''all'' resourceType"
    using r p2(1) p3 by blast
qed

text \<open>R2 is reachable twice and listed once; R3 is listed although its relation grants
  nothing.\<close>

theorem accessible_resources_witness:
  "\<exists>ids. ListAccessibleResources listingEngine 1 ''U'' ResourceTypeDocument PermissionDelete
            = Inr ids
     \<and> distinct ids \<and> set ids = {''R1'', ''R2'', ''R3''}
     \<and> \<not> RelationGrantsPermission RelationUnspecified PermissionDelete
     \<and> ListAccessibleResources failingEngine 1 ''U'' ResourceTypeDocument PermissionDelete
           = Inl ''context canceled''"
proof -
  have f: "ListResourcesBySubject (store failingEngine) 1 SubjectTypeUser ''U''
             ResourceTypeDocument = Inl ''context canceled''"
    by (simp add: scenario_defs2)
  note failing = accessible_resources_are_the_deduplicated_union[where e = failingEngine
        and tenantID = 1 and userID = "''U''" and resourceType = ResourceTypeDocument
        and permission = PermissionDelete and err = "''context canceled''",
        THEN conjunct2, THEN conjunct2, rule_format, OF f]
  have h: "ListResourcesBySubject (store listingEngine) 1 SubjectTypeUser ''U'' ResourceTypeDocument
             = Inr [''R1'', ''R2'']
    \<and> GetUserRoleIDs (lookup listingEngine) 1 ''U'' = ([''R''], None)"
    by (simp add: listingEngine_def scenario_defs)
  have u: "set [''R1'', ''R2'']
           \<union> (\<Union>roleID \<in> (if (None::error option) = None then set [''R''] else {}).
                 listedIDs listingEngine 1 SubjectTypeRole roleID ResourceTypeDocument)
           \<union> listedIDs listingEngine 1 SubjectTypeTenant ''all'' ResourceTypeDocument
         = {''R1'', ''R2'', ''R3''}"
    by (auto simp: listedIDs_def listingEngine_def scenario_defs)
  show ?thesis
    using accessible_resources_are_the_deduplicated_union[where e = listingEngine
        and tenantID = 1 and userID = "''U''" and resourceType = ResourceTypeDocument
        and permission = PermissionDelete and userResources = "[''R1'', ''R2'']"
        and roleIDs = "[''R'']" and roleErr = None, THEN conjunct1, rule_format, OF h]
      failing
    unfolding u by simp
qed

section \<open>Results of Check\<close>

text \<open>
  Claim C9. Every denying result that \<open>Check\<close> returns carries the reason
  "no permission found": the reasons of the denying sub-checks are never surfaced, because
  only allowing sub-results leave the evaluation steps.
\<close>

theorem denial_reason_is_no_permission_found:
  assumes "Check e now check = Some r" and "\<not> Allowed r"
  shows "r = \<lparr>Allowed = False, Relation = None, Reason = ''no permission found''\<rparr>"
  using assms
  by (auto simp: Check_def Let_def noPermissionFound_def
      split: prod.splits if_splits option.splits dest: checkRoles_Some)

text \<open>The direct check fails with "permission expired"; \<open>Check\<close> reports
  "no permission found".\<close>

theorem denial_reason_witness:
  "Check expiredOwnerEngine 10 (readDocument ''U'' ''D'') =
     Some \<lparr>Allowed = False, Relation = None, Reason = ''no permission found''\<rparr>
   \<and> Reason (checkDirectPermission expiredOwnerEngine 10 (readDocument ''U'' ''D'')
        SubjectTypeUser ''U'') = ''permission expired''"
proof -
  obtain r where h1: "Check expiredOwnerEngine 10 (readDocument ''U'' ''D'') = Some r"
    and h2: "\<not> Allowed r"
    by (simp add: expiredOwnerEngine_def engine_defs scenario_defs hierarchyWalk.simps)
  have h3: "Reason (checkDirectPermission expiredOwnerEngine 10 (readDocument ''U'' ''D'')
        SubjectTypeUser ''U'') = ''permission expired''"
    by (simp add: expiredOwnerEngine_def engine_defs scenario_defs)
  show ?thesis using denial_reason_is_no_permission_found[OF h1 h2] h1 h3 by simp
qed

text \<open>
  Claim C10. Whenever \<open>Check\<close> returns a result with \<open>Allowed\<close> set, the \<open>Relation\<close> field
  of the result is set and that relation grants the requested permission according to the
  grants table; this holds on every path, the hierarchy walk included.
\<close>

theorem allowed_result_carries_granting_relation:
  assumes "Check e now check = Some r" and "Allowed r"
  shows "\<exists>rel. Relation r = Some rel \<and> RelationGrantsPermission rel (Permission check)"
  using assms
  by (auto simp: Check_def Let_def noPermissionFound_def
      split: prod.splits if_splits option.splits
      dest!: checkRoles_Some checkDirectPermission_allowed checkHierarchy_allowed)

theorem allowed_result_witness:
  "\<exists>r rel. Check twoRolesEngine 10 (readDocument ''U'' ''D'') = Some r \<and> Allowed r
     \<and> Relation r = Some rel \<and> RelationGrantsPermission rel PermissionRead"
proof -
  obtain r where h1: "Check twoRolesEngine 10 (readDocument ''U'' ''D'') = Some r"
    and h2: "Allowed r"
    by (simp add: twoRolesEngine_def engine_defs scenario_defs)
  have h3: "Permission (readDocument ''U'' ''D'') = PermissionRead"
    by (simp add: readDocument_def)
  show ?thesis using allowed_result_carries_granting_relation[OF h1 h2] h1 h2 h3 by auto
qed

end
